theory Spec2Isabelle
  imports Main
begin

section \<open>Structured text: the values and the text written by JSON.stringify\<close>

text \<open>
  The cart store keeps its collection in on-device storage as JSON text. The values
  that this text denotes are modelled by the datatype \<open>json\<close>. JavaScript numbers
  are modelled as unbounded integers, which covers prices and quantities that are
  whole numbers, and strings as lists of 8-bit characters.
\<close>

datatype json =
    JNull
  | JBool bool
  | JNum int
  | JStr string
  | JArr "json list"
  | JObj "(string \<times> json) list"

definition digit_char :: "nat \<Rightarrow> char" where
  "digit_char d = char_of (48 + d)"

fun show_nat :: "nat \<Rightarrow> string" where
  "show_nat n = (if n < 10 then [digit_char n] else show_nat (n div 10) @ [digit_char (n mod 10)])"

declare show_nat.simps [simp del]

definition show_int :: "int \<Rightarrow> string" where
  "show_int i = (if i < 0 then CHR ''-'' # show_nat (nat (- i)) else show_nat (nat i))"

definition hex_char :: "nat \<Rightarrow> char" where
  "hex_char d = (if d < 10 then char_of (48 + d) else char_of (87 + d))"

text \<open>
  One character inside a quoted string: the quote and the backslash are escaped, the
  control characters below 0x20 are written with their short escape or as
  \<open>\u00XX\<close>, every other character stands for itself.
\<close>

definition escape_char :: "char \<Rightarrow> string" where
  "escape_char c =
     (if c = CHR 0x22 then [CHR 0x5C, CHR 0x22]
      else if c = CHR 0x5C then [CHR 0x5C, CHR 0x5C]
      else if c = CHR 0x08 then [CHR 0x5C, CHR ''b'']
      else if c = CHR 0x0C then [CHR 0x5C, CHR ''f'']
      else if c = CHR 0x0A then [CHR 0x5C, CHR ''n'']
      else if c = CHR 0x0D then [CHR 0x5C, CHR ''r'']
      else if c = CHR 0x09 then [CHR 0x5C, CHR ''t'']
      else if (of_char c :: nat) < 32
        then [CHR 0x5C, CHR ''u'', CHR ''0'', CHR ''0'',
              hex_char (of_char c div 16), hex_char (of_char c mod 16)]
      else [c])"

definition quote :: "string \<Rightarrow> string" where
  "quote s = CHR 0x22 # concat (map escape_char s) @ [CHR 0x22]"

fun commas :: "string list \<Rightarrow> string" where
  "commas [] = []"
| "commas [x] = x"
| "commas (x # y # ys) = x @ CHR '','' # commas (y # ys)"

fun JSON_stringify :: "json \<Rightarrow> string" where
  "JSON_stringify JNull = ''null''"
| "JSON_stringify (JBool b) = (if b then ''true'' else ''false'')"
| "JSON_stringify (JNum n) = show_int n"
| "JSON_stringify (JStr s) = quote s"
| "JSON_stringify (JArr vs) = CHR ''['' # commas (map JSON_stringify vs) @ [CHR '']'']"
| "JSON_stringify (JObj kvs) =
     CHR ''{'' # commas (map (\<lambda>kv. quote (fst kv) @ CHR '':'' # JSON_stringify (snd kv)) kvs)
       @ [CHR ''}'']"

section \<open>Structured text: reading it back with JSON.parse\<close>


definition is_ws :: "char \<Rightarrow> bool" where
  "is_ws c = (c = CHR 0x20 \<or> c = CHR 0x09 \<or> c = CHR 0x0A \<or> c = CHR 0x0D)"

definition skip_ws :: "string \<Rightarrow> string" where
  "skip_ws cs = dropWhile is_ws cs"














section \<open>The cart store\<close>


record CartItem =
  productId :: string
  title :: string
  price :: int
  imageUrl :: string
  quantity :: int

text \<open>A notification handed to \<open>toast\<close>: title, description and optional variant.\<close>

record Toast =
  toast_title :: string
  description :: string
  variant :: "string option"

text \<open>
  The state of the cart store: the \<open>items\<close> held by \<open>useState\<close>, the
  notifications raised so far (oldest first) and the on-device storage, a map from
  keys to strings.
\<close>

record cart_state =
  items :: "CartItem list"
  toasts :: "Toast list"
  localStorage :: "string \<rightharpoonup> string"

definition toast :: "Toast \<Rightarrow> cart_state \<Rightarrow> cart_state" where
  "toast t s = s\<lparr>toasts := toasts s @ [t]\<rparr>"

text \<open>The object that \<open>JSON.stringify\<close> sees for one entry, keys in creation order.\<close>

definition json_of_item :: "CartItem \<Rightarrow> json" where
  "json_of_item item =
     JObj [(''productId'', JStr (productId item)),
           (''title'', JStr (title item)),
           (''price'', JNum (price item)),
           (''imageUrl'', JStr (imageUrl item)),
           (''quantity'', JNum (quantity item))]"

definition json_of_cart :: "CartItem list \<Rightarrow> json" where
  "json_of_cart its = JArr (map json_of_item its)"

text \<open>
  The effect \<open>localStorage.setItem('cart', JSON.stringify(items))\<close>, run after every
  change of \<open>items\<close>.
\<close>

definition persist :: "cart_state \<Rightarrow> cart_state" where
  "persist s = s\<lparr>localStorage := (localStorage s)(''cart'' \<mapsto> JSON_stringify (json_of_cart (items s)))\<rparr>"

text \<open>\<open>setItems\<close> with the following run of the persistence effect.\<close>

definition setItems :: "CartItem list \<Rightarrow> cart_state \<Rightarrow> cart_state" where
  "setItems its s = persist (s\<lparr>items := its\<rparr>)"









definition removeFromCart :: "string \<Rightarrow> cart_state \<Rightarrow> cart_state" where
  "removeFromCart pid s =
     (let prev = items s;
          s1 = (case find (\<lambda>i. productId i = pid) prev of
                  Some item \<Rightarrow>
                    toast \<lparr>toast_title = ''Removed from Cart'',
                           description = title item @ '' has been removed'',
                           variant = Some ''destructive''\<rparr> s
                | None \<Rightarrow> s)
      in setItems (filter (\<lambda>item. productId item \<noteq> pid) prev) s1)"

definition updateQuantity :: "string \<Rightarrow> int \<Rightarrow> cart_state \<Rightarrow> cart_state" where
  "updateQuantity pid qty s =
     (if qty < 1 then removeFromCart pid s
      else setItems
             (map (\<lambda>item. if productId item = pid then item\<lparr>quantity := qty\<rparr> else item)
                (items s)) s)"











section \<open>The session store\<close>

text \<open>
  The value that a \<open>catch\<close> clause receives: the store reads its \<open>message\<close> and
  its \<open>code\<close>, either of which may be missing.
\<close>

record js_error =
  err_message :: "string option"
  err_code :: "string option"

text \<open>
  How an awaited call or a \<open>try\<close> block ends: with a value, or by throwing.
\<close>

datatype 'a outcome = Returns 'a | Throws js_error

record AppUser =
  user_id :: string
  user_name :: string
  user_email :: string
  user_avatar :: "string option"

text \<open>
  The answers of the backend client, as far as the store reads them:
  \<open>data.user?.id\<close> and \<open>error\<close> of the credential check, the user id and email of
  the current session, \<open>data\<close> and \<open>error\<close> of the profile query, \<open>error\<close> of
  the sign-out call.
\<close>

record signin_response =
  signin_user_id :: "string option"
  signin_error :: "js_error option"

record session_response =
  session_user_id :: "string option"
  session_user_email :: "string option"

record profile_row =
  row_id :: string
  row_full_name :: "string option"
  row_avatar :: "string option"

record select_response =
  select_data :: "profile_row option"
  select_error :: "js_error option"

record backend =
  auth_signInWithPassword :: "string \<Rightarrow> string \<Rightarrow> signin_response outcome"
  auth_getSession :: "session_response outcome"
  profiles_select_single :: "string \<Rightarrow> select_response outcome"
  auth_signOut :: "js_error option outcome"

text \<open>
  The state of the session store: the identity and the loading flag held by
  \<open>useState\<close>, the notifications raised and the lines logged with
  \<open>console.error\<close>, oldest first.
\<close>

record auth_state =
  user :: "AppUser option"
  isLoading :: bool
  auth_toasts :: "Toast list"
  console :: "(string \<times> js_error) list"

definition setUser :: "AppUser option \<Rightarrow> auth_state \<Rightarrow> auth_state" where
  "setUser u s = s\<lparr>user := u\<rparr>"

definition setIsLoading :: "bool \<Rightarrow> auth_state \<Rightarrow> auth_state" where
  "setIsLoading b s = s\<lparr>isLoading := b\<rparr>"

definition auth_toast :: "string \<Rightarrow> string \<Rightarrow> auth_state \<Rightarrow> auth_state" where
  "auth_toast t d s =
     s\<lparr>auth_toasts := auth_toasts s @ [\<lparr>toast_title = t, description = d, variant = None\<rparr>]\<rparr>"

definition console_error :: "string \<Rightarrow> js_error \<Rightarrow> auth_state \<Rightarrow> auth_state" where
  "console_error label err s = s\<lparr>console := console s @ [(label, err)]\<rparr>"





definition signOut_try :: "backend \<Rightarrow> auth_state \<Rightarrow> unit outcome \<times> auth_state" where
  "signOut_try be s =
     (case auth_signOut be of
        Throws err \<Rightarrow> (Throws err, s)
      | Returns (Some error) \<Rightarrow> (Throws error, s)
      | Returns None \<Rightarrow>
          (Returns (), auth_toast ''Logged out'' ''You have been signed out.'' (setUser None s)))"

definition signOut :: "backend \<Rightarrow> auth_state \<Rightarrow> unit outcome \<times> auth_state" where
  "signOut be s =
     (case (case signOut_try be (setIsLoading True s) of
              (Throws err, s1) \<Rightarrow>
                (Returns (),
                 auth_toast ''Logout failed'' ''Please try again.''
                   (console_error ''signOut error'' err s1))
            | (Returns x, s1) \<Rightarrow> (Returns x, s1)) of
        (r, s2) \<Rightarrow> (r, setIsLoading False s2))"


definition signOut_failure :: "backend \<Rightarrow> js_error option" where
  "signOut_failure be = (case auth_signOut be of Throws err \<Rightarrow> Some err | Returns e \<Rightarrow> e)"


section \<open>Reading back what was written\<close>

text \<open>The text after a number in serialized text: nothing, or a comma or a closing bracket or brace.\<close>

definition ends_number :: "string \<Rightarrow> bool" where
  "ends_number rest =
     (case rest of [] \<Rightarrow> True | d # _ \<Rightarrow> d = CHR '','' \<or> d = CHR '']'' \<or> d = CHR ''}'')"

text \<open>A text that begins with a character of a value: no white space, no closing bracket or brace.\<close>

definition starts_value :: "string \<Rightarrow> bool" where
  "starts_value s =
     (case s of [] \<Rightarrow> False | c # _ \<Rightarrow> \<not> is_ws c \<and> c \<noteq> CHR '']'' \<and> c \<noteq> CHR ''}'')"




section \<open>Properties of the structured text\<close>














lemma char_neq_by_code: "(of_char c :: nat) \<noteq> of_char d \<Longrightarrow> c \<noteq> d"
  by auto



lemma parse_chars_quote:
  "quote s @ rest = CHR 0x22 # concat (map escape_char s) @ CHR 0x22 # rest"
  by (simp add: quote_def)

lemma skip_ws_starts_value: "starts_value s \<Longrightarrow> skip_ws (s @ r) = s @ r"
  by (cases s) (auto simp: starts_value_def skip_ws_def)






lemma skip_ws_delimiter [simp]:
  "skip_ws (CHR '','' # r) = CHR '','' # r"
  "skip_ws (CHR '']'' # r) = CHR '']'' # r"
  "skip_ws (CHR ''}'' # r) = CHR ''}'' # r"
  "skip_ws (CHR '':'' # r) = CHR '':'' # r"
  "skip_ws (CHR 0x22 # r) = CHR 0x22 # r"
  "skip_ws (CHR ''['' # r) = CHR ''['' # r"
  "skip_ws (CHR ''{'' # r) = CHR ''{'' # r"
  by (simp_all add: skip_ws_def is_ws_def)

lemma ends_number_delimiter [simp]:
  "ends_number (CHR '','' # r)" "ends_number (CHR '']'' # r)" "ends_number (CHR ''}'' # r)"
  "ends_number []"
  by (simp_all add: ends_number_def)







section \<open>Properties of the cart store\<close>



subsection \<open>Reads of the state after each operation\<close>

lemma items_setItems [simp]: "items (setItems its s) = its"
  by (simp add: setItems_def persist_def)

lemma toasts_setItems [simp]: "toasts (setItems its s) = toasts s"
  by (simp add: setItems_def persist_def)

lemma items_toast [simp]: "items (toast t s) = items s"
  by (simp add: toast_def)

lemma toasts_toast [simp]: "toasts (toast t s) = toasts s @ [t]"
  by (simp add: toast_def)

lemma find_None_absent:
  "find (\<lambda>i. productId i = pid) xs = None \<longleftrightarrow> pid \<notin> productId ` set xs"
  by (auto simp: find_None_iff)






text \<open>
  C3: \<open>updateQuantity(id, q)\<close> with \<open>q < 1\<close> yields the same state, with the same
  notifications, as \<open>removeFromCart(id)\<close>.
\<close>

theorem updateQuantity_below_one_is_remove:
  "qty < 1 \<Longrightarrow> updateQuantity pid qty s = removeFromCart pid s"
  by (simp add: updateQuantity_def)

theorem updateQuantity_below_one_is_remove_witness:
  "(0::int) < 1
   \<and> updateQuantity ''P1'' 0
        \<lparr>items = [\<lparr>productId = ''P1'', title = ''Lamp'', price = 10,
                    imageUrl = ''lamp.png'', quantity = 3\<rparr>],
         toasts = [], localStorage = Map.empty\<rparr>
     = removeFromCart ''P1''
        \<lparr>items = [\<lparr>productId = ''P1'', title = ''Lamp'', price = 10,
                    imageUrl = ''lamp.png'', quantity = 3\<rparr>],
         toasts = [], localStorage = Map.empty\<rparr>"
  using updateQuantity_below_one_is_remove
    [of 0 "''P1''" "\<lparr>items = [\<lparr>productId = ''P1'', title = ''Lamp'', price = 10,
                    imageUrl = ''lamp.png'', quantity = 3\<rparr>],
         toasts = [], localStorage = Map.empty\<rparr>"]
  by simp

text \<open>
  C9: \<open>removeFromCart(id)\<close> with an id that no entry has leaves the collection as
  it is and raises no notification; with an id that is present, the entries with that
  id are gone, the others stay in order, and one notification naming the title of the
  matching entry is raised.
\<close>

theorem removeFromCart_frame:
  "(pid \<notin> productId ` set (items s) \<longrightarrow>
      items (removeFromCart pid s) = items s \<and> toasts (removeFromCart pid s) = toasts s)
   \<and> (pid \<in> productId ` set (items s) \<longrightarrow>
      items (removeFromCart pid s) = filter (\<lambda>item. productId item \<noteq> pid) (items s)
      \<and> pid \<notin> productId ` set (items (removeFromCart pid s))
      \<and> (\<exists>item. find (\<lambda>i. productId i = pid) (items s) = Some item
            \<and> item \<in> set (items s) \<and> productId item = pid
            \<and> toasts (removeFromCart pid s)
                = toasts s @ [\<lparr>toast_title = ''Removed from Cart'',
                                description = title item @ '' has been removed'',
                                variant = Some ''destructive''\<rparr>]))"
proof (intro conjI impI)
  assume absent: "pid \<notin> productId ` set (items s)"
  then have none: "find (\<lambda>i. productId i = pid) (items s) = None"
    by (simp add: find_None_absent)
  have "filter (\<lambda>item. productId item \<noteq> pid) (items s) = items s"
    using absent by (auto simp: filter_id_conv)
  then show "items (removeFromCart pid s) = items s"
    by (simp add: removeFromCart_def Let_def)
  show "toasts (removeFromCart pid s) = toasts s"
    using none by (simp add: removeFromCart_def Let_def)
next
  assume present: "pid \<in> productId ` set (items s)"
  show "items (removeFromCart pid s) = filter (\<lambda>item. productId item \<noteq> pid) (items s)"
    by (simp add: removeFromCart_def Let_def)
  then show "pid \<notin> productId ` set (items (removeFromCart pid s))"
    by auto
  from present have "find (\<lambda>i. productId i = pid) (items s) \<noteq> None"
    by (simp add: find_None_absent)
  then obtain item where f: "find (\<lambda>i. productId i = pid) (items s) = Some item"
    by blast
  then have "item \<in> set (items s)" "productId item = pid"
    by (auto simp: find_Some_iff)
  with f show "\<exists>item. find (\<lambda>i. productId i = pid) (items s) = Some item
            \<and> item \<in> set (items s) \<and> productId item = pid
            \<and> toasts (removeFromCart pid s)
                = toasts s @ [\<lparr>toast_title = ''Removed from Cart'',
                                description = title item @ '' has been removed'',
                                variant = Some ''destructive''\<rparr>]"
    by (simp add: removeFromCart_def Let_def)
qed

theorem removeFromCart_frame_witness:
  "(let s = \<lparr>items = [\<lparr>productId = ''P1'', title = ''Lamp'', price = 10,
                         imageUrl = ''lamp.png'', quantity = 3\<rparr>],
              toasts = [], localStorage = Map.empty\<rparr>
    in ''P2'' \<notin> productId ` set (items s)
       \<and> items (removeFromCart ''P2'' s) = items s
       \<and> toasts (removeFromCart ''P2'' s) = []
       \<and> ''P1'' \<in> productId ` set (items s)
       \<and> items (removeFromCart ''P1'' s) = []
       \<and> toasts (removeFromCart ''P1'' s)
           = [\<lparr>toast_title = ''Removed from Cart'', description = ''Lamp has been removed'',
               variant = Some ''destructive''\<rparr>])"
  using removeFromCart_frame
    [of "''P2''" "\<lparr>items = [\<lparr>productId = ''P1'', title = ''Lamp'', price = 10,
                         imageUrl = ''lamp.png'', quantity = 3\<rparr>],
              toasts = [], localStorage = Map.empty\<rparr>"]
    removeFromCart_frame
    [of "''P1''" "\<lparr>items = [\<lparr>productId = ''P1'', title = ''Lamp'', price = 10,
                         imageUrl = ''lamp.png'', quantity = 3\<rparr>],
              toasts = [], localStorage = Map.empty\<rparr>"]
  by (simp add: Let_def)

subsection \<open>Positive quantities\<close>






subsection \<open>The persisted copy\<close>







subsection \<open>Starting from a stored value\<close>




section \<open>Properties of the session store\<close>






text \<open>
  C10: when the backend sign-out call reports an error (thrown or returned),
  \<open>signOut\<close> leaves the stored identity as it was and raises the notification
  "Logout failed"; it throws nothing in any case; and when the call succeeds the
  identity is cleared, so an identity that \<open>signOut\<close> changed was cleared on success.
\<close>

theorem signOut_failure_keeps_identity:
  "(signOut_failure be = Some err \<longrightarrow>
      user (snd (signOut be s)) = user s
      \<and> auth_toasts (snd (signOut be s))
          = auth_toasts s
            @ [\<lparr>toast_title = ''Logout failed'', description = ''Please try again.'',
                variant = None\<rparr>])
   \<and> (\<exists>x. fst (signOut be s) = Returns x)
   \<and> (signOut_failure be = None \<longrightarrow> user (snd (signOut be s)) = None)
   \<and> (user (snd (signOut be s)) \<noteq> user s \<longrightarrow> signOut_failure be = None)"
  by (auto simp: signOut_failure_def signOut_def signOut_try_def setUser_def auth_toast_def
        console_error_def setIsLoading_def split: outcome.splits option.splits)

theorem signOut_failure_keeps_identity_witness:
  "(let be = \<lparr>auth_signInWithPassword =
                 (\<lambda>email password.
                    Returns \<lparr>signin_user_id = Some ''u1'', signin_error = None\<rparr>),
               auth_getSession = Returns \<lparr>session_user_id = None, session_user_email = None\<rparr>,
               profiles_select_single =
                 (\<lambda>uid. Returns \<lparr>select_data = None, select_error = None\<rparr>),
               auth_signOut = Returns (Some \<lparr>err_message = Some ''network'', err_code = None\<rparr>)\<rparr>;
        ok = be\<lparr>auth_signOut := Returns None\<rparr>;
        s = \<lparr>user = Some \<lparr>user_id = ''u1'', user_name = ''Ann'', user_email = ''a@b.c'',
                          user_avatar = None\<rparr>,
             isLoading = False, auth_toasts = [], console = []\<rparr>
    in signOut_failure be = Some \<lparr>err_message = Some ''network'', err_code = None\<rparr>
       \<and> user (snd (signOut be s)) = user s
       \<and> auth_toasts (snd (signOut be s))
           = [\<lparr>toast_title = ''Logout failed'', description = ''Please try again.'',
               variant = None\<rparr>]
       \<and> signOut_failure ok = None
       \<and> user (snd (signOut ok s)) = None
       \<and> user (snd (signOut ok s)) \<noteq> user s)"
  using signOut_failure_keeps_identity
    [of "\<lparr>auth_signInWithPassword =
                 (\<lambda>email password.
                    Returns \<lparr>signin_user_id = Some ''u1'', signin_error = None\<rparr>),
               auth_getSession = Returns \<lparr>session_user_id = None, session_user_email = None\<rparr>,
               profiles_select_single =
                 (\<lambda>uid. Returns \<lparr>select_data = None, select_error = None\<rparr>),
               auth_signOut = Returns (Some \<lparr>err_message = Some ''network'', err_code = None\<rparr>)\<rparr>"
        "\<lparr>err_message = Some ''network'', err_code = None\<rparr>"
        "\<lparr>user = Some \<lparr>user_id = ''u1'', user_name = ''Ann'', user_email = ''a@b.c'',
                          user_avatar = None\<rparr>,
             isLoading = False, auth_toasts = [], console = []\<rparr>"]
    signOut_failure_keeps_identity
    [of "\<lparr>auth_signInWithPassword =
                 (\<lambda>email password.
                    Returns \<lparr>signin_user_id = Some ''u1'', signin_error = None\<rparr>),
               auth_getSession = Returns \<lparr>session_user_id = None, session_user_email = None\<rparr>,
               profiles_select_single =
                 (\<lambda>uid. Returns \<lparr>select_data = None, select_error = None\<rparr>),
               auth_signOut = Returns None\<rparr>"
        "\<lparr>err_message = Some ''network'', err_code = None\<rparr>"
        "\<lparr>user = Some \<lparr>user_id = ''u1'', user_name = ''Ann'', user_email = ''a@b.c'',
                          user_avatar = None\<rparr>,
             isLoading = False, auth_toasts = [], console = []\<rparr>"]
  by (simp add: Let_def signOut_failure_def)

end
